theory Spec2Isabelle
  imports Complex_Main "HOL-Library.Log_Nat" "HOL-Library.AList"
begin

section \<open>Values of the language\<close>

text \<open>
  The handlers of \<^verbatim>\<open>src/index.js\<close> work on JSON-derived JavaScript values: the parsed
  request body, the rows and error objects the store client returns, and the objects
  passed to \<^verbatim>\<open>res.json\<close>. This section models those values and the operators the
  handlers apply to them: \<^verbatim>\<open>!x\<close>, property access, \<^verbatim>\<open>data[0]\<close>, \<^verbatim>\<open>===\<close>,
  \<^verbatim>\<open>*\<close>, \<^verbatim>\<open>+\<close> and \<^verbatim>\<open>/\<close>.
\<close>

subsection \<open>Numbers\<close>

text \<open>
  A Number is an IEEE 754 binary64 value: NaN, the two infinities, negative zero, or a
  finite rational (\<open>Fin 0\<close> is positive zero). Every arithmetic result is rounded to the
  nearest representable value, ties to even.
\<close>

datatype jsnum = NaN | PosInf | NegInf | NegZero | Fin rat

fun is_nan :: "jsnum \<Rightarrow> bool" where
  "is_nan NaN = True"
| "is_nan _ = False"

fun is_inf :: "jsnum \<Rightarrow> bool" where
  "is_inf PosInf = True"
| "is_inf NegInf = True"
| "is_inf _ = False"

fun is_zero :: "jsnum \<Rightarrow> bool" where
  "is_zero NegZero = True"
| "is_zero (Fin q) = (q = 0)"
| "is_zero _ = False"

fun negative :: "jsnum \<Rightarrow> bool" where
  "negative NegInf = True"
| "negative NegZero = True"
| "negative (Fin q) = (q < 0)"
| "negative _ = False"

fun rat_of :: "jsnum \<Rightarrow> rat" where
  "rat_of (Fin q) = q"
| "rat_of _ = 0"

definition inf_of :: "bool \<Rightarrow> jsnum" where
  "inf_of neg = (if neg then NegInf else PosInf)"

definition zero_of :: "bool \<Rightarrow> jsnum" where
  "zero_of neg = (if neg then NegZero else Fin 0)"

definition pow2 :: "int \<Rightarrow> rat" where
  "pow2 p = (if 0 \<le> p then 2 ^ nat p else 1 / 2 ^ nat (- p))"

text \<open>\<open>ilog2 a\<close> is the exponent \<open>e\<close> with \<open>2^e \<le> a < 2^(e+1)\<close>, for positive \<open>a\<close>.\<close>

definition ilog2 :: "rat \<Rightarrow> int" where
  "ilog2 a = (let (n, d) = quotient_of a;
                  k = bitlen n - bitlen d
              in if pow2 k \<le> a then k else k - 1)"

definition round_half_even :: "rat \<Rightarrow> int" where
  "round_half_even r =
     (let f = \<lfloor>r\<rfloor>; d = r - of_int f
      in if d < 1 / 2 then f
         else if 1 / 2 < d then f + 1
         else if even f then f else f + 1)"

text \<open>
  Rounding an exact result to binary64: 53 significant bits for a normal value, a multiple
  of \<open>2^-1074\<close> below \<open>2^-1022\<close>, infinity from \<open>2^1024\<close> on, a signed zero on underflow.
\<close>

definition round_double :: "rat \<Rightarrow> jsnum" where
  "round_double q =
     (if q = 0 then Fin 0
      else let a = \<bar>q\<bar>;
               p = max (ilog2 a) (- 1022) - 52;
               m = round_half_even (a / pow2 p)
           in if m = 0 then zero_of (q < 0)
              else if 1024 < bitlen m + p then inf_of (q < 0)
              else Fin ((if q < 0 then - 1 else 1) * of_int m * pow2 p))"

definition num_mul :: "jsnum \<Rightarrow> jsnum \<Rightarrow> jsnum" where
  "num_mul x y =
     (if is_nan x \<or> is_nan y then NaN
      else if is_inf x \<or> is_inf y then
        (if is_zero x \<or> is_zero y then NaN else inf_of (negative x \<noteq> negative y))
      else if is_zero x \<or> is_zero y then zero_of (negative x \<noteq> negative y)
      else round_double (rat_of x * rat_of y))"

definition num_add :: "jsnum \<Rightarrow> jsnum \<Rightarrow> jsnum" where
  "num_add x y =
     (if is_nan x \<or> is_nan y then NaN
      else if is_inf x then (if is_inf y \<and> negative x \<noteq> negative y then NaN else x)
      else if is_inf y then y
      else if is_zero x \<and> is_zero y then zero_of (negative x \<and> negative y)
      else round_double (rat_of x + rat_of y))"

definition num_div :: "jsnum \<Rightarrow> jsnum \<Rightarrow> jsnum" where
  "num_div x y =
     (if is_nan x \<or> is_nan y then NaN
      else if is_inf x then (if is_inf y then NaN else inf_of (negative x \<noteq> negative y))
      else if is_inf y then zero_of (negative x \<noteq> negative y)
      else if is_zero y then (if is_zero x then NaN else inf_of (negative x \<noteq> negative y))
      else if is_zero x then zero_of (negative x \<noteq> negative y)
      else round_double (rat_of x / rat_of y))"

text \<open>Numeric equality: NaN equals nothing, the two zeros are equal.\<close>

definition num_eq :: "jsnum \<Rightarrow> jsnum \<Rightarrow> bool" where
  "num_eq x y = (\<not> is_nan x \<and> \<not> is_nan y \<and> (x = y \<or> (is_zero x \<and> is_zero y)))"

text \<open>A number is finite when it is neither NaN nor an infinity.\<close>

definition non_finite :: "jsnum \<Rightarrow> bool" where
  "non_finite x = (is_nan x \<or> is_inf x)"

subsection \<open>JSON-derived values\<close>

datatype jsvalue =
    JUndefined
  | JNull
  | JBool bool
  | JNum jsnum
  | JStr string
  | JArr "jsvalue list"
  | JObj "(string \<times> jsvalue) list"

text \<open>\<^verbatim>\<open>!x\<close> is \<open>\<not> truthy x\<close>: undefined, null, false, both zeros, NaN and the empty
  string are falsy; every object and array is truthy.\<close>

fun truthy :: "jsvalue \<Rightarrow> bool" where
  "truthy JUndefined = False"
| "truthy JNull = False"
| "truthy (JBool b) = b"
| "truthy (JNum n) = (\<not> is_zero n \<and> \<not> is_nan n)"
| "truthy (JStr s) = (s \<noteq> [])"
| "truthy (JArr xs) = True"
| "truthy (JObj fs) = True"

text \<open>The number zero, of either sign.\<close>

fun zero_number :: "jsvalue \<Rightarrow> bool" where
  "zero_number (JNum n) = is_zero n"
| "zero_number _ = False"

text \<open>Reading a property of undefined or null, or destructuring it, throws a TypeError.\<close>

definition nullish :: "jsvalue \<Rightarrow> bool" where
  "nullish v = (v = JUndefined \<or> v = JNull)"

text \<open>
  \<open>field v k\<close> is \<^verbatim>\<open>v.k\<close> for a value that is not nullish and a name \<open>k\<close> that no
  built-in prototype defines (the handlers read sku, name, description, price, weeks,
  normal_rate, punctual_rate and code): the own property of an object, undefined otherwise.
\<close>

fun field :: "jsvalue \<Rightarrow> string \<Rightarrow> jsvalue" where
  "field (JObj fs) k = (case map_of fs k of None \<Rightarrow> JUndefined | Some v \<Rightarrow> v)"
| "field _ k = JUndefined"

text \<open>The property names of an object, in order.\<close>

fun keys_of :: "jsvalue \<Rightarrow> string list" where
  "keys_of (JObj fs) = map fst fs"
| "keys_of _ = []"

datatype exn = Thrown jsvalue | TypeError

text \<open>\<^verbatim>\<open>data[0]\<close>.\<close>

fun index0 :: "jsvalue \<Rightarrow> exn + jsvalue" where
  "index0 JUndefined = Inl TypeError"
| "index0 JNull = Inl TypeError"
| "index0 (JArr []) = Inr JUndefined"
| "index0 (JArr (x # xs)) = Inr x"
| "index0 (JStr []) = Inr JUndefined"
| "index0 (JStr (c # cs)) = Inr (JStr [c])"
| "index0 (JObj fs) = Inr (field (JObj fs) ''0'')"
| "index0 _ = Inr JUndefined"

subsection \<open>Arithmetic operators\<close>

text \<open>
  The operators convert their operands. The two conversions between strings and numbers
  belong to the language runtime and are taken as parameters.
\<close>

record engine =
  StringToNumber :: "string \<Rightarrow> jsnum"
  NumberToString :: "jsnum \<Rightarrow> string"

fun join_comma :: "string list \<Rightarrow> string" where
  "join_comma [] = []"
| "join_comma [s] = s"
| "join_comma (s # t # ss) = s @ '','' @ join_comma (t # ss)"

fun ToString :: "engine \<Rightarrow> jsvalue \<Rightarrow> string" where
  "ToString eng JUndefined = ''undefined''"
| "ToString eng JNull = ''null''"
| "ToString eng (JBool b) = (if b then ''true'' else ''false'')"
| "ToString eng (JNum n) = NumberToString eng n"
| "ToString eng (JStr s) = s"
| "ToString eng (JArr xs) =
     join_comma (map (\<lambda>x. if x = JUndefined \<or> x = JNull then [] else ToString eng x) xs)"
| "ToString eng (JObj fs) = ''[object Object]''"

fun ToPrimitive :: "engine \<Rightarrow> jsvalue \<Rightarrow> jsvalue" where
  "ToPrimitive eng (JArr xs) = JStr (ToString eng (JArr xs))"
| "ToPrimitive eng (JObj fs) = JStr (ToString eng (JObj fs))"
| "ToPrimitive eng v = v"

fun ToNumber :: "engine \<Rightarrow> jsvalue \<Rightarrow> jsnum" where
  "ToNumber eng JUndefined = NaN"
| "ToNumber eng JNull = Fin 0"
| "ToNumber eng (JBool b) = (if b then Fin 1 else Fin 0)"
| "ToNumber eng (JNum n) = n"
| "ToNumber eng (JStr s) = StringToNumber eng s"
| "ToNumber eng (JArr xs) = StringToNumber eng (ToString eng (JArr xs))"
| "ToNumber eng (JObj fs) = StringToNumber eng (ToString eng (JObj fs))"

fun is_string :: "jsvalue \<Rightarrow> bool" where
  "is_string (JStr s) = True"
| "is_string _ = False"

definition js_mul :: "engine \<Rightarrow> jsvalue \<Rightarrow> jsvalue \<Rightarrow> jsvalue" where
  "js_mul eng a b = JNum (num_mul (ToNumber eng a) (ToNumber eng b))"

definition js_div :: "engine \<Rightarrow> jsvalue \<Rightarrow> jsvalue \<Rightarrow> jsvalue" where
  "js_div eng a b = JNum (num_div (ToNumber eng a) (ToNumber eng b))"

text \<open>\<^verbatim>\<open>+\<close> concatenates once either operand is a string after conversion to a primitive.\<close>

definition js_add :: "engine \<Rightarrow> jsvalue \<Rightarrow> jsvalue \<Rightarrow> jsvalue" where
  "js_add eng a b =
     (let pa = ToPrimitive eng a; pb = ToPrimitive eng b
      in if is_string pa \<or> is_string pb then JStr (ToString eng pa @ ToString eng pb)
         else JNum (num_add (ToNumber eng pa) (ToNumber eng pb)))"

section \<open>The store client\<close>

text \<open>
  Every handler talks to the remote store through the module-level client
  \<^verbatim>\<open>supabase\<close>. A query is built by chaining and awaited once; the awaited result is
  an object with the properties \<^verbatim>\<open>data\<close> and \<^verbatim>\<open>error\<close>. The five chains that occur in
  the source are the constructors of \<open>store_call\<close>:

  \<^item> \<^verbatim>\<open>from(t).select('*')\<close>
  \<^item> \<^verbatim>\<open>from(t).select('*').eq(col, v).single()\<close>
  \<^item> \<^verbatim>\<open>from(t).insert(rows).select()\<close>
  \<^item> \<^verbatim>\<open>from(t).update(patch).eq(col, v).select()\<close>
  \<^item> \<^verbatim>\<open>from(t).delete().eq(col, v)\<close>

  The client is a parameter of every handler: a function from the call and the state of
  the remote store to the reply and the state afterwards.
\<close>

datatype store_call =
    SelectAll string
  | SelectSingle string string jsvalue
  | Insert string "jsvalue list"
  | Update string jsvalue string jsvalue
  | Delete string string jsvalue

record reply =
  data :: jsvalue
  error :: jsvalue

type_synonym 'st store = "store_call \<Rightarrow> 'st \<Rightarrow> reply \<times> 'st"

text \<open>A client that also records the calls it receives, in order.\<close>

definition recording :: "'st store \<Rightarrow> ('st \<times> store_call list) store" where
  "recording supabase c = (\<lambda>(s, calls).
     let (r, s') = supabase c s in (r, (s', calls @ [c])))"

fun is_read :: "store_call \<Rightarrow> bool" where
  "is_read (SelectAll t) = True"
| "is_read (SelectSingle t col v) = True"
| "is_read _ = False"

section \<open>Requests and responses\<close>

text \<open>
  A handler reads the route parameter \<^verbatim>\<open>req.params.sku\<close> (a string, on the routes that
  have it) and the parsed body \<^verbatim>\<open>req.body\<close>. It answers with a status and either a JSON
  payload (\<^verbatim>\<open>res.status(n).json(v)\<close>) or nothing (\<^verbatim>\<open>res.status(n).send()\<close>).
\<close>

record request =
  params_sku :: string
  req_body :: jsvalue

datatype payload = Json jsvalue | NoBody

record response =
  status :: nat
  payload :: payload

definition error_response :: "nat \<Rightarrow> string \<Rightarrow> response" where
  "error_response code msg = \<lparr>status = code, payload = Json (JObj [(''error'', JStr msg)])\<rparr>"

text \<open>
  Each handler is one \<^verbatim>\<open>try\<close> block with a \<^verbatim>\<open>catch\<close> that logs the exception and answers
  500 with the handler's own message. The \<open>_try\<close> function is the block: \<open>Inl\<close> an
  exception, \<open>Inr\<close> the response sent. The log line on the console is not modelled.
\<close>

definition catch :: "string \<Rightarrow> (exn + response) \<times> 'st \<Rightarrow> response \<times> 'st" where
  "catch msg r = (case r of
       (Inl e, s) \<Rightarrow> (error_response 500 msg, s)
     | (Inr resp, s) \<Rightarrow> (resp, s))"

section \<open>The handlers\<close>

subsection \<open>GET /api/products\<close>

definition get_products_try :: "'st store \<Rightarrow> request \<Rightarrow> 'st \<Rightarrow> (exn + response) \<times> 'st" where
  "get_products_try supabase req s =
     (let (r, s') = supabase (SelectAll ''products'') s in
      if truthy (error r) then (Inl (Thrown (error r)), s')
      else (Inr \<lparr>status = 200, payload = Json (data r)\<rparr>, s'))"

definition get_products :: "'st store \<Rightarrow> request \<Rightarrow> 'st \<Rightarrow> response \<times> 'st" where
  "get_products supabase req s =
     catch ''Failed to fetch products'' (get_products_try supabase req s)"

subsection \<open>GET /api/products/:sku\<close>

definition get_product_try :: "'st store \<Rightarrow> request \<Rightarrow> 'st \<Rightarrow> (exn + response) \<times> 'st" where
  "get_product_try supabase req s =
     (let sku = params_sku req;
          (r, s') = supabase (SelectSingle ''products'' ''sku'' (JStr sku)) s in
      if truthy (error r) then
        (if field (error r) ''code'' = JStr ''PGRST116''
         then (Inr (error_response 404 ''Producto no encontrado.''), s')
         else (Inl (Thrown (error r)), s'))
      else (Inr \<lparr>status = 200, payload = Json (data r)\<rparr>, s'))"

definition get_product :: "'st store \<Rightarrow> request \<Rightarrow> 'st \<Rightarrow> response \<times> 'st" where
  "get_product supabase req s =
     catch ''Failed to fetch product'' (get_product_try supabase req s)"

subsection \<open>POST /api/products\<close>

definition post_products_try :: "'st store \<Rightarrow> request \<Rightarrow> 'st \<Rightarrow> (exn + response) \<times> 'st" where
  "post_products_try supabase req s =
     (if nullish (req_body req) then (Inl TypeError, s)
      else
        let sku = field (req_body req) ''sku'';
            name = field (req_body req) ''name'';
            description = field (req_body req) ''description'';
            price = field (req_body req) ''price''
        in if \<not> truthy sku \<or> \<not> truthy name \<or> \<not> truthy price
           then (Inr (error_response 400 ''SKU, nombre y precio son requeridos.''), s)
           else
             let (r, s') = supabase (Insert ''products''
                    [JObj [(''sku'', sku), (''name'', name),
                           (''description'', description), (''price'', price)]]) s
             in if truthy (error r) then (Inl (Thrown (error r)), s')
                else (case index0 (data r) of
                        Inl e \<Rightarrow> (Inl e, s')
                      | Inr v \<Rightarrow> (Inr \<lparr>status = 201, payload = Json v\<rparr>, s')))"

definition post_products :: "'st store \<Rightarrow> request \<Rightarrow> 'st \<Rightarrow> response \<times> 'st" where
  "post_products supabase req s =
     catch ''Failed to create product'' (post_products_try supabase req s)"

subsection \<open>PUT /api/products/:sku\<close>

definition put_product_try :: "'st store \<Rightarrow> request \<Rightarrow> 'st \<Rightarrow> (exn + response) \<times> 'st" where
  "put_product_try supabase req s =
     (let sku = params_sku req in
      if nullish (req_body req) then (Inl TypeError, s)
      else
        let name = field (req_body req) ''name'';
            description = field (req_body req) ''description'';
            price = field (req_body req) ''price''
        in if \<not> truthy name \<or> \<not> truthy price
           then (Inr (error_response 400 ''Nombre y precio son requeridos''), s)
           else
             let (r, s') = supabase (Update ''products''
                    (JObj [(''name'', name), (''description'', description), (''price'', price)])
                    ''sku'' (JStr sku)) s
             in if truthy (error r) then (Inl (Thrown (error r)), s')
                else (case index0 (data r) of
                        Inl e \<Rightarrow> (Inl e, s')
                      | Inr v \<Rightarrow> (Inr \<lparr>status = 200, payload = Json v\<rparr>, s')))"

definition put_product :: "'st store \<Rightarrow> request \<Rightarrow> 'st \<Rightarrow> response \<times> 'st" where
  "put_product supabase req s =
     catch ''Failed to update product'' (put_product_try supabase req s)"

subsection \<open>DELETE /api/products/:sku\<close>

definition delete_product_try :: "'st store \<Rightarrow> request \<Rightarrow> 'st \<Rightarrow> (exn + response) \<times> 'st" where
  "delete_product_try supabase req s =
     (let sku = params_sku req;
          (r, s') = supabase (Delete ''products'' ''sku'' (JStr sku)) s in
      if truthy (error r) then (Inl (Thrown (error r)), s')
      else (Inr \<lparr>status = 204, payload = NoBody\<rparr>, s'))"

definition delete_product :: "'st store \<Rightarrow> request \<Rightarrow> 'st \<Rightarrow> response \<times> 'st" where
  "delete_product supabase req s =
     catch ''Failed to delete product'' (delete_product_try supabase req s)"

subsection \<open>GET /api/terms\<close>

definition get_terms_try :: "'st store \<Rightarrow> request \<Rightarrow> 'st \<Rightarrow> (exn + response) \<times> 'st" where
  "get_terms_try supabase req s =
     (let (r, s') = supabase (SelectAll ''terms'') s in
      if truthy (error r) then (Inl (Thrown (error r)), s')
      else (Inr \<lparr>status = 200, payload = Json (data r)\<rparr>, s'))"

definition get_terms :: "'st store \<Rightarrow> request \<Rightarrow> 'st \<Rightarrow> response \<times> 'st" where
  "get_terms supabase req s =
     catch ''Failed to fetch terms'' (get_terms_try supabase req s)"

subsection \<open>POST /api/terms\<close>

definition post_terms_try :: "'st store \<Rightarrow> request \<Rightarrow> 'st \<Rightarrow> (exn + response) \<times> 'st" where
  "post_terms_try supabase req s =
     (if nullish (req_body req) then (Inl TypeError, s)
      else
        let weeks = field (req_body req) ''weeks'';
            normal_rate = field (req_body req) ''normal_rate'';
            punctual_rate = field (req_body req) ''punctual_rate''
        in if \<not> truthy weeks \<or> \<not> truthy normal_rate \<or> \<not> truthy punctual_rate
           then (Inr (error_response 400
                   ''Weeks, normal_rate, and punctual_rate are required''), s)
           else
             let (r, s') = supabase (Insert ''terms''
                    [JObj [(''weeks'', weeks), (''normal_rate'', normal_rate),
                           (''punctual_rate'', punctual_rate)]]) s
             in if truthy (error r) then (Inl (Thrown (error r)), s')
                else (case index0 (data r) of
                        Inl e \<Rightarrow> (Inl e, s')
                      | Inr v \<Rightarrow> (Inr \<lparr>status = 201, payload = Json v\<rparr>, s')))"

definition post_terms :: "'st store \<Rightarrow> request \<Rightarrow> 'st \<Rightarrow> response \<times> 'st" where
  "post_terms supabase req s =
     catch ''Failed to create term'' (post_terms_try supabase req s)"

subsection \<open>POST /api/quote\<close>

text \<open>
  \<open>payment\<close> is the expression
  \<^verbatim>\<open>((product.price * term.rate) + product.price) / weeks\<close>, where \<open>weeks\<close> is the value
  from the request body.
\<close>

definition payment :: "engine \<Rightarrow> jsvalue \<Rightarrow> jsvalue \<Rightarrow> jsvalue \<Rightarrow> jsvalue" where
  "payment eng price rate weeks = js_div eng (js_add eng (js_mul eng price rate) price) weeks"

definition post_quote_try ::
  "engine \<Rightarrow> 'st store \<Rightarrow> request \<Rightarrow> 'st \<Rightarrow> (exn + response) \<times> 'st" where
  "post_quote_try eng supabase req s =
     (if nullish (req_body req) then (Inl TypeError, s)
      else
        let sku = field (req_body req) ''sku'';
            weeks = field (req_body req) ''weeks'';
            (r1, s1) = supabase (SelectSingle ''products'' ''sku'' sku) s
        in if truthy (error r1) then (Inl (Thrown (error r1)), s1)
           else
             let (r2, s2) = supabase (SelectSingle ''terms'' ''weeks'' weeks) s1
             in if truthy (error r2) then (Inl (Thrown (error r2)), s2)
                else
                  let product = data r1; term = data r2
                  in if nullish product \<or> nullish term then (Inl TypeError, s2)
                     else
                       let normalPayment =
                             payment eng (field product ''price'') (field term ''normal_rate'') weeks;
                           punctualPayment =
                             payment eng (field product ''price'') (field term ''punctual_rate'') weeks
                       in (Inr \<lparr>status = 200, payload = Json (JObj
                              [(''normalPayment'', normalPayment),
                               (''punctualPayment'', punctualPayment)])\<rparr>, s2))"

definition post_quote :: "engine \<Rightarrow> 'st store \<Rightarrow> request \<Rightarrow> 'st \<Rightarrow> response \<times> 'st" where
  "post_quote eng supabase req s =
     catch ''Failed to calculate quote'' (post_quote_try eng supabase req s)"

section \<open>A reference store\<close>

text \<open>
  Modelled from the spec: the remote relational store behind the client, which is not part
  of the repository. The spec describes it as table-scoped select, insert, update and
  delete with equality filters and a single-row fetch that reports a distinguishable
  no-rows condition. \<open>mem_store\<close> is that store over two in-memory tables: a single-row
  fetch answers the error code PGRST116 unless exactly one row matches, an update
  overwrites the columns its patch names on the matching rows, and an unknown table is an
  error. The handlers never depend on it; it serves as the concrete store of the examples
  and gives the update its meaning on rows.
\<close>

record tables =
  products :: "jsvalue list"
  terms :: "jsvalue list"

definition rows_of :: "string \<Rightarrow> tables \<Rightarrow> jsvalue list option" where
  "rows_of t s = (if t = ''products'' then Some (products s)
                  else if t = ''terms'' then Some (terms s) else None)"

definition put_rows :: "string \<Rightarrow> jsvalue list \<Rightarrow> tables \<Rightarrow> tables" where
  "put_rows t rs s = (if t = ''products'' then s\<lparr>products := rs\<rparr>
                      else if t = ''terms'' then s\<lparr>terms := rs\<rparr> else s)"

fun cell_eq :: "jsvalue \<Rightarrow> jsvalue \<Rightarrow> bool" where
  "cell_eq (JNum a) (JNum b) = num_eq a b"
| "cell_eq (JStr a) (JStr b) = (a = b)"
| "cell_eq _ _ = False"

definition eq_filter :: "string \<Rightarrow> jsvalue \<Rightarrow> jsvalue \<Rightarrow> bool" where
  "eq_filter col v row = cell_eq (field row col) v"

text \<open>A property whose value is undefined is not transmitted.\<close>

fun set_fields :: "(string \<times> jsvalue) list \<Rightarrow> (string \<times> jsvalue) list \<Rightarrow> (string \<times> jsvalue) list" where
  "set_fields [] fs = fs"
| "set_fields ((k, v) # ps) fs =
     set_fields ps (if v = JUndefined then fs else AList.update k v fs)"

fun apply_patch :: "jsvalue \<Rightarrow> jsvalue \<Rightarrow> jsvalue" where
  "apply_patch (JObj ps) (JObj fs) = JObj (set_fields ps fs)"
| "apply_patch _ row = row"

definition new_row :: "jsvalue \<Rightarrow> jsvalue" where
  "new_row v = apply_patch v (JObj [])"

definition no_rows :: reply where
  "no_rows = \<lparr>data = JNull, error = JObj [(''code'', JStr ''PGRST116''),
       (''message'', JStr ''JSON object requested, multiple (or no) rows returned'')]\<rparr>"

definition no_table :: reply where
  "no_table = \<lparr>data = JNull, error = JObj [(''code'', JStr ''42P01''),
       (''message'', JStr ''relation does not exist'')]\<rparr>"

definition on_table :: "string \<Rightarrow> tables \<Rightarrow> (jsvalue list \<Rightarrow> reply \<times> tables) \<Rightarrow> reply \<times> tables" where
  "on_table t s f = (case rows_of t s of None \<Rightarrow> (no_table, s) | Some rs \<Rightarrow> f rs)"

text \<open>
  Modelled from the spec: what the remote store answers to each of the five calls. The
  client library and the database behind it are not in \<^verbatim>\<open>src/\<close>.
\<close>

fun mem_store :: "store_call \<Rightarrow> tables \<Rightarrow> reply \<times> tables" where
  "mem_store (SelectAll t) s =
     on_table t s (\<lambda>rs. (\<lparr>data = JArr rs, error = JNull\<rparr>, s))"
| "mem_store (SelectSingle t col v) s =
     on_table t s (\<lambda>rs. case filter (eq_filter col v) rs of
                          [row] \<Rightarrow> (\<lparr>data = row, error = JNull\<rparr>, s)
                        | _ \<Rightarrow> (no_rows, s))"
| "mem_store (Insert t rows) s =
     on_table t s (\<lambda>rs. (\<lparr>data = JArr (map new_row rows), error = JNull\<rparr>,
                          put_rows t (rs @ map new_row rows) s))"
| "mem_store (Update t patch col v) s =
     on_table t s (\<lambda>rs.
       (\<lparr>data = JArr (map (apply_patch patch) (filter (eq_filter col v) rs)), error = JNull\<rparr>,
        put_rows t (map (\<lambda>row. if eq_filter col v row then apply_patch patch row else row) rs) s))"
| "mem_store (Delete t col v) s =
     on_table t s (\<lambda>rs.
       (\<lparr>data = JNull, error = JNull\<rparr>,
        put_rows t (filter (\<lambda>row. \<not> eq_filter col v row) rs) s))"

text \<open>A store that cannot serve any call: every reply carries the given error.\<close>

definition failing_store :: "jsvalue \<Rightarrow> 'st store" where
  "failing_store err c s = (\<lparr>data = JNull, error = err\<rparr>, s)"

text \<open>The tables and requests of the examples.\<close>

definition chair :: jsvalue where
  "chair = JObj [(''sku'', JStr ''A1''), (''name'', JStr ''Chair''),
                 (''description'', JStr ''Oak''), (''price'', JNum (Fin 1000))]"

definition four_weeks :: jsvalue where
  "four_weeks = JObj [(''weeks'', JNum (Fin 4)),
                      (''normal_rate'', JNum (round_double (1 / 10))),
                      (''punctual_rate'', JNum (round_double (1 / 20)))]"

definition zero_weeks :: jsvalue where
  "zero_weeks = JObj [(''weeks'', JNum (Fin 0)),
                      (''normal_rate'', JNum (round_double (1 / 10))),
                      (''punctual_rate'', JNum (round_double (1 / 20)))]"

definition shop :: tables where
  "shop = \<lparr>products = [chair], terms = [four_weeks, zero_weeks]\<rparr>"

definition quote_request :: "string \<Rightarrow> jsnum \<Rightarrow> request" where
  "quote_request sku w =
     \<lparr>params_sku = [], req_body = JObj [(''sku'', JStr sku), (''weeks'', JNum w)]\<rparr>"

definition sku_request :: "string \<Rightarrow> jsvalue \<Rightarrow> request" where
  "sku_request sku b = \<lparr>params_sku = sku, req_body = b\<rparr>"

definition body_request :: "jsvalue \<Rightarrow> request" where
  "body_request b = \<lparr>params_sku = [], req_body = b\<rparr>"

section \<open>Properties of the handlers\<close>

text \<open>
  The properties hold for every store client \<open>supabase\<close> and every state of the remote
  store, and, for the quote, for every conversion between strings and numbers. The
  examples run on \<open>mem_store\<close>. The file \<^verbatim>\<open>src/unnamed/part_000\<close> is the same program with
  other message texts.
\<close>

subsection \<open>Numbers: examples\<close>

lemma tenth_rounded: "round_double (1 / 10) = Fin (3602879701896397 / 36028797018963968)"
  by code_simp

lemma tenth_plus_fifth:
  "num_add (round_double (1 / 10)) (round_double (2 / 10)) = Fin (1351079888211149 / 4503599627370496)"
  by code_simp

lemma ties_to_even:
  "round_double (2 ^ 53 + 1) = Fin (2 ^ 53)"
  "round_double (2 ^ 53 + 3) = Fin (2 ^ 53 + 4)"
  by code_simp+

lemma thousand_tenths: "num_mul (Fin 1000) (round_double (1 / 10)) = Fin 100"
  by code_simp

lemma division_by_zero:
  "num_div (Fin 1100) (Fin 0) = PosInf"
  "num_div (Fin 1100) NegZero = NegInf"
  "num_div (Fin 0) (Fin 0) = NaN"
  by code_simp+

subsection \<open>Auxiliary facts\<close>

lemma truthy_field: "truthy (field v k) \<Longrightarrow> \<not> nullish v"
  by (auto simp: nullish_def)

lemma recording_apply:
  "recording supabase c (s, calls) = (fst (supabase c s), (snd (supabase c s), calls @ [c]))"
  by (simp add: recording_def split: prod.splits)

lemma num_div_by_zero: "is_zero w \<Longrightarrow> non_finite (num_div x w)"
  by (cases x; cases w) (simp_all add: num_div_def non_finite_def inf_of_def)

lemma matching_zero:
  assumes "zero_number cell" and "cell_eq cell v"
  shows "is_zero (ToNumber eng v)"
proof -
  from assms(1) obtain t where cell: "cell = JNum t" and t: "is_zero t"
    by (cases cell) simp_all
  from assms(2) cell obtain w where v: "v = JNum w" and eq: "num_eq t w"
    by (cases v) simp_all
  from t eq have "is_zero w"
    by (auto simp: num_eq_def)
  with v show ?thesis
    by simp
qed

subsection \<open>The quote\<close>

text \<open>
  C1. When the store answers the product lookup and the term lookup of a quote request
  without an error, and the price and the two rates of the rows are numbers, the handler
  answers 200 with \<open>normalPayment = (price * normal_rate + price) / weeks\<close> and
  \<open>punctualPayment = (price * punctual_rate + price) / weeks\<close>, computed in the
  arithmetic of Numbers, \<open>weeks\<close> being the request's value converted to a Number. For
  price 1000, 4 weeks and the rates 0.1 and 0.05 the payments are 275 and 262.5.
\<close>

theorem quote_payments:
  assumes body: "\<not> nullish (req_body req)"
    and product: "supabase (SelectSingle ''products'' ''sku'' (field (req_body req) ''sku'')) s
                    = (\<lparr>data = product, error = e1\<rparr>, s1)" "\<not> truthy e1"
    and "term": "supabase (SelectSingle ''terms'' ''weeks'' (field (req_body req) ''weeks'')) s1
                    = (\<lparr>data = term, error = e2\<rparr>, s2)" "\<not> truthy e2"
    and price: "field product ''price'' = JNum price"
    and normal_rate: "field term ''normal_rate'' = JNum normal_rate"
    and punctual_rate: "field term ''punctual_rate'' = JNum punctual_rate"
    and weeks: "ToNumber eng (field (req_body req) ''weeks'') = weeks"
  shows "post_quote eng supabase req s =
           (\<lparr>status = 200, payload = Json (JObj
              [(''normalPayment'',
                  JNum (num_div (num_add (num_mul price normal_rate) price) weeks)),
               (''punctualPayment'',
                  JNum (num_div (num_add (num_mul price punctual_rate) price) weeks))])\<rparr>, s2)"
proof -
  have "\<not> nullish product" "\<not> nullish term"
    using price normal_rate by (auto simp: nullish_def)
  then show ?thesis
    using assms
    by (simp add: post_quote_def post_quote_try_def catch_def payment_def
        js_div_def js_add_def js_mul_def)
qed

theorem quote_payments_witness:
  "\<forall>eng. post_quote eng mem_store (quote_request ''A1'' (Fin 4)) shop =
     (\<lparr>status = 200, payload = Json (JObj
        [(''normalPayment'', JNum (Fin 275)),
         (''punctualPayment'', JNum (Fin (525 / 2)))])\<rparr>, shop)"
proof
  fix eng
  let ?req = "quote_request ''A1'' (Fin 4)"
  have body: "\<not> nullish (req_body ?req)"
    by code_simp
  have product: "mem_store (SelectSingle ''products'' ''sku'' (field (req_body ?req) ''sku'')) shop
      = (\<lparr>data = chair, error = JNull\<rparr>, shop)"
    by code_simp
  have "term": "mem_store (SelectSingle ''terms'' ''weeks'' (field (req_body ?req) ''weeks'')) shop
      = (\<lparr>data = four_weeks, error = JNull\<rparr>, shop)"
    by code_simp
  have no_error: "\<not> truthy JNull"
    by simp
  have price: "field chair ''price'' = JNum (Fin 1000)"
    by code_simp
  have normal_rate: "field four_weeks ''normal_rate'' = JNum (round_double (1 / 10))"
    by code_simp
  have punctual_rate: "field four_weeks ''punctual_rate'' = JNum (round_double (1 / 20))"
    by code_simp
  have weeks: "ToNumber eng (field (req_body ?req) ''weeks'') = Fin 4"
    by code_simp
  have normal: "num_div (num_add (num_mul (Fin 1000) (round_double (1 / 10))) (Fin 1000)) (Fin 4)
      = Fin 275"
    by code_simp
  have punctual: "num_div (num_add (num_mul (Fin 1000) (round_double (1 / 20))) (Fin 1000)) (Fin 4)
      = Fin (525 / 2)"
    by code_simp
  show "post_quote eng mem_store ?req shop =
     (\<lparr>status = 200, payload = Json (JObj
        [(''normalPayment'', JNum (Fin 275)),
         (''punctualPayment'', JNum (Fin (525 / 2)))])\<rparr>, shop)"
    using quote_payments [where supabase = mem_store,
        OF body product no_error "term" no_error price normal_rate punctual_rate weeks]
    by (simp only: normal punctual)
qed

text \<open>
  C2. When the product lookup or, after it succeeded, the term lookup of a quote request
  comes back with an error, which is how the store reports that no row matches, the
  handler answers 500 with its generic message: the status is not 404 and the payload
  carries no payment.
\<close>

theorem quote_lookup_failure:
  assumes product: "supabase (SelectSingle ''products'' ''sku'' (field (req_body req) ''sku'')) s
                      = (r1, s1)"
    and "term": "supabase (SelectSingle ''terms'' ''weeks'' (field (req_body req) ''weeks'')) s1
                      = (r2, s2)"
    and failure: "truthy (error r1) \<or> truthy (error r2)"
  shows "fst (post_quote eng supabase req s) = error_response 500 ''Failed to calculate quote''"
proof (cases "nullish (req_body req)")
  case True
  then show ?thesis
    by (simp add: post_quote_def post_quote_try_def catch_def)
next
  case False
  show ?thesis
  proof (cases "truthy (error r1)")
    case True
    with \<open>\<not> nullish (req_body req)\<close> product show ?thesis
      by (simp add: post_quote_def post_quote_try_def catch_def)
  next
    case False
    with failure have "truthy (error r2)"
      by simp
    with False \<open>\<not> nullish (req_body req)\<close> product "term" show ?thesis
      by (simp add: post_quote_def post_quote_try_def catch_def)
  qed
qed

theorem quote_lookup_failure_witness:
  "\<forall>eng. fst (post_quote eng mem_store (quote_request ''B7'' (Fin 4)) shop) =
            \<lparr>status = 500, payload = Json (JObj [(''error'', JStr ''Failed to calculate quote'')])\<rparr>
         \<and> fst (post_quote eng mem_store (quote_request ''A1'' (Fin 9)) shop) =
            \<lparr>status = 500, payload = Json (JObj [(''error'', JStr ''Failed to calculate quote'')])\<rparr>"
proof (intro allI conjI)
  fix eng
  let ?req = "quote_request ''B7'' (Fin 4)"
  have product: "mem_store (SelectSingle ''products'' ''sku'' (field (req_body ?req) ''sku'')) shop
      = (no_rows, shop)"
    by code_simp
  have "term": "mem_store (SelectSingle ''terms'' ''weeks'' (field (req_body ?req) ''weeks'')) shop
      = (\<lparr>data = four_weeks, error = JNull\<rparr>, shop)"
    by code_simp
  have failure: "truthy (error no_rows) \<or> truthy (error \<lparr>data = four_weeks, error = JNull\<rparr>)"
    by code_simp
  show "fst (post_quote eng mem_store ?req shop) =
      \<lparr>status = 500, payload = Json (JObj [(''error'', JStr ''Failed to calculate quote'')])\<rparr>"
    using quote_lookup_failure [where supabase = mem_store, OF product "term" failure]
    by (simp add: error_response_def)
next
  fix eng
  let ?req = "quote_request ''A1'' (Fin 9)"
  have product: "mem_store (SelectSingle ''products'' ''sku'' (field (req_body ?req) ''sku'')) shop
      = (\<lparr>data = chair, error = JNull\<rparr>, shop)"
    by code_simp
  have "term": "mem_store (SelectSingle ''terms'' ''weeks'' (field (req_body ?req) ''weeks'')) shop
      = (no_rows, shop)"
    by code_simp
  have failure: "truthy (error \<lparr>data = chair, error = JNull\<rparr>) \<or> truthy (error no_rows)"
    by code_simp
  show "fst (post_quote eng mem_store ?req shop) =
      \<lparr>status = 500, payload = Json (JObj [(''error'', JStr ''Failed to calculate quote'')])\<rparr>"
    using quote_lookup_failure [where supabase = mem_store, OF product "term" failure]
    by (simp add: error_response_def)
qed

lemma post_quote_try_recording:
  "post_quote_try eng (recording supabase) req (s, []) =
     (fst (post_quote_try eng supabase req s),
      (snd (post_quote_try eng supabase req s),
       if nullish (req_body req) then []
       else if truthy (error (fst (supabase
              (SelectSingle ''products'' ''sku'' (field (req_body req) ''sku'')) s)))
       then [SelectSingle ''products'' ''sku'' (field (req_body req) ''sku'')]
       else [SelectSingle ''products'' ''sku'' (field (req_body req) ''sku''),
             SelectSingle ''terms'' ''weeks'' (field (req_body req) ''weeks'')]))"
  by (simp add: post_quote_try_def recording_apply Let_def split: prod.splits)

lemma post_quote_recording:
  "post_quote eng (recording supabase) req (s, []) =
     (fst (post_quote eng supabase req s),
      (snd (post_quote eng supabase req s),
       if nullish (req_body req) then []
       else if truthy (error (fst (supabase
              (SelectSingle ''products'' ''sku'' (field (req_body req) ''sku'')) s)))
       then [SelectSingle ''products'' ''sku'' (field (req_body req) ''sku'')]
       else [SelectSingle ''products'' ''sku'' (field (req_body req) ''sku''),
             SelectSingle ''terms'' ''weeks'' (field (req_body req) ''weeks'')]))"
  by (simp add: post_quote_def post_quote_try_recording catch_def split: prod.splits sum.splits)

lemma post_quote_try_status:
  "post_quote_try eng supabase req s = (Inr resp, t) \<Longrightarrow> status resp = 200"
  by (auto simp: post_quote_try_def Let_def split: prod.splits if_splits)

lemma post_quote_status:
  assumes "status (fst (post_quote eng supabase req s)) \<noteq> 200"
  shows "fst (post_quote eng supabase req s) = error_response 500 ''Failed to calculate quote''"
proof -
  obtain x t where run: "post_quote_try eng supabase req s = (x, t)"
    by (cases "post_quote_try eng supabase req s")
  show ?thesis
  proof (cases x)
    case (Inl e)
    with run show ?thesis
      by (simp add: post_quote_def catch_def)
  next
    case (Inr resp)
    with run have "status resp = 200"
      by (simp add: post_quote_try_status)
    with run Inr assms show ?thesis
      by (simp add: post_quote_def catch_def)
  qed
qed

lemma post_quote_try_state:
  assumes "\<forall>c t. is_read c \<longrightarrow> snd (supabase c t) = t"
  shows "snd (post_quote_try eng supabase req s) = s"
proof -
  have same: "snd (supabase (SelectSingle t col v) u) = u" for t col v u
    using assms by simp
  obtain r1 s1 where r1: "supabase (SelectSingle ''products'' ''sku''
      (field (req_body req) ''sku'')) s = (r1, s1)"
    by (cases "supabase (SelectSingle ''products'' ''sku'' (field (req_body req) ''sku'')) s")
  obtain r2 s2 where r2: "supabase (SelectSingle ''terms'' ''weeks''
      (field (req_body req) ''weeks'')) s1 = (r2, s2)"
    by (cases "supabase (SelectSingle ''terms'' ''weeks'' (field (req_body req) ''weeks'')) s1")
  have "s1 = s"
    using same [of "''products''" "''sku''" "field (req_body req) ''sku''" s] r1 by simp
  moreover have "s2 = s1"
    using same [of "''terms''" "''weeks''" "field (req_body req) ''weeks''" s1] r2 by simp
  ultimately show ?thesis
    using r1 r2 by (simp add: post_quote_try_def Let_def)
qed

lemma post_quote_state:
  assumes "\<forall>c t. is_read c \<longrightarrow> snd (supabase c t) = t"
  shows "snd (post_quote eng supabase req s) = s"
proof -
  obtain x t where run: "post_quote_try eng supabase req s = (x, t)"
    by (cases "post_quote_try eng supabase req s")
  with post_quote_try_state [OF assms, of eng req s] have "t = s"
    by simp
  with run show ?thesis
    by (cases x) (simp_all add: post_quote_def catch_def)
qed

text \<open>
  C5. A quote request whose body can be destructured performs its store reads in a fixed
  order: the product lookup first and, exactly when that one comes back without an error,
  the term lookup second; when the product lookup fails the term lookup is never issued.
  (A body that is undefined or null throws before any call.) These are all the calls, and
  each is a single-row select, so nothing is inserted, updated or deleted. Any answer other
  than 200 is the generic 500 message, with no partial result, and a store whose selects
  leave its state alone is left in the state it was in. Recording the calls does not change
  the answer.
\<close>

theorem quote_store_calls:
  assumes run: "post_quote eng (recording supabase) req (s, []) = (resp, (s', calls))"
  shows "(let product_lookup = SelectSingle ''products'' ''sku'' (field (req_body req) ''sku'');
              term_lookup = SelectSingle ''terms'' ''weeks'' (field (req_body req) ''weeks'')
          in (nullish (req_body req) \<longrightarrow> calls = [])
             \<and> (\<not> nullish (req_body req) \<and> truthy (error (fst (supabase product_lookup s)))
                  \<longrightarrow> calls = [product_lookup])
             \<and> (\<not> nullish (req_body req) \<and> \<not> truthy (error (fst (supabase product_lookup s)))
                  \<longrightarrow> calls = [product_lookup, term_lookup])
             \<and> (\<forall>c \<in> set calls. is_read c)
             \<and> post_quote eng supabase req s = (resp, s')
             \<and> (status resp \<noteq> 200
                  \<longrightarrow> resp = error_response 500 ''Failed to calculate quote'')
             \<and> ((\<forall>c t. is_read c \<longrightarrow> snd (supabase c t) = t) \<longrightarrow> s' = s))"
proof -
  have resp: "resp = fst (post_quote eng supabase req s)"
    and s': "s' = snd (post_quote eng supabase req s)"
    and calls: "calls = (if nullish (req_body req) then []
       else if truthy (error (fst (supabase
              (SelectSingle ''products'' ''sku'' (field (req_body req) ''sku'')) s)))
       then [SelectSingle ''products'' ''sku'' (field (req_body req) ''sku'')]
       else [SelectSingle ''products'' ''sku'' (field (req_body req) ''sku''),
             SelectSingle ''terms'' ''weeks'' (field (req_body req) ''weeks'')])"
    using run unfolding post_quote_recording by simp_all
  have status: "status resp \<noteq> 200 \<longrightarrow> resp = error_response 500 ''Failed to calculate quote''"
    unfolding resp using post_quote_status [of eng supabase req s] by simp
  have state: "(\<forall>c t. is_read c \<longrightarrow> snd (supabase c t) = t) \<longrightarrow> s' = s"
    unfolding s' using post_quote_state [of supabase eng req s] by simp
  show ?thesis
    unfolding Let_def
    using status state by (simp add: calls resp s')
qed


theorem quote_store_calls_witness:
  "\<forall>eng. post_quote eng (recording mem_store) (quote_request ''B7'' (Fin 4)) (shop, []) =
            (error_response 500 ''Failed to calculate quote'',
             (shop, [SelectSingle ''products'' ''sku'' (JStr ''B7'')]))
         \<and> post_quote eng mem_store (quote_request ''B7'' (Fin 4)) shop =
            (error_response 500 ''Failed to calculate quote'', shop)
         \<and> post_quote eng (recording mem_store) (quote_request ''A1'' (Fin 9)) (shop, []) =
            (error_response 500 ''Failed to calculate quote'',
             (shop, [SelectSingle ''products'' ''sku'' (JStr ''A1''),
                     SelectSingle ''terms'' ''weeks'' (JNum (Fin 9))]))
         \<and> post_quote eng mem_store (quote_request ''A1'' (Fin 9)) shop =
            (error_response 500 ''Failed to calculate quote'', shop)
         \<and> snd (post_quote eng (recording mem_store) (quote_request ''A1'' (Fin 4)) (shop, [])) =
            (shop, [SelectSingle ''products'' ''sku'' (JStr ''A1''),
                    SelectSingle ''terms'' ''weeks'' (JNum (Fin 4))])
         \<and> snd (post_quote eng mem_store (quote_request ''A1'' (Fin 4)) shop) = shop"
proof (intro allI conjI)
  fix eng
  have both: "post_quote eng (recording mem_store)
      (quote_request ''A1'' (Fin 4)) (shop, []) =
      (\<lparr>status = 200, payload = Json (JObj
          [(''normalPayment'', JNum (Fin 275)),
           (''punctualPayment'', JNum (Fin (525 / 2)))])\<rparr>,
       (shop, [SelectSingle ''products'' ''sku'' (JStr ''A1''),
               SelectSingle ''terms'' ''weeks'' (JNum (Fin 4))]))"
    by code_simp
  then show "snd (post_quote eng (recording mem_store) (quote_request ''A1'' (Fin 4)) (shop, [])) =
      (shop, [SelectSingle ''products'' ''sku'' (JStr ''A1''),
              SelectSingle ''terms'' ''weeks'' (JNum (Fin 4))])"
    by simp
  show "snd (post_quote eng mem_store (quote_request ''A1'' (Fin 4)) shop) = shop"
    using quote_store_calls [OF both] by (simp add: Let_def)
  show no_product: "post_quote eng (recording mem_store) (quote_request ''B7'' (Fin 4)) (shop, []) =
      (error_response 500 ''Failed to calculate quote'',
       (shop, [SelectSingle ''products'' ''sku'' (JStr ''B7'')]))"
    by code_simp
  show "post_quote eng mem_store (quote_request ''B7'' (Fin 4)) shop =
      (error_response 500 ''Failed to calculate quote'', shop)"
    using quote_store_calls [OF no_product] by (simp add: Let_def)
  show no_term: "post_quote eng (recording mem_store) (quote_request ''A1'' (Fin 9)) (shop, []) =
      (error_response 500 ''Failed to calculate quote'',
       (shop, [SelectSingle ''products'' ''sku'' (JStr ''A1''),
               SelectSingle ''terms'' ''weeks'' (JNum (Fin 9))]))"
    by code_simp
  show "post_quote eng mem_store (quote_request ''A1'' (Fin 9)) shop =
      (error_response 500 ''Failed to calculate quote'', shop)"
    using quote_store_calls [OF no_term] by (simp add: Let_def)
qed

text \<open>
  C6. The division by the request's weeks is not guarded. When both lookups succeed on
  numeric rows and the request's weeks is zero of either sign, or the matching term (matching
  as the equality filter of the reference store matches) has zero weeks, the handler takes
  no error branch: it answers 200 and both payments handed to \<^verbatim>\<open>res.json\<close> are an
  infinity or NaN.
\<close>

theorem quote_zero_weeks:
  assumes body: "\<not> nullish (req_body req)"
    and product: "supabase (SelectSingle ''products'' ''sku'' (field (req_body req) ''sku'')) s
                    = (\<lparr>data = product, error = e1\<rparr>, s1)" "\<not> truthy e1"
    and "term": "supabase (SelectSingle ''terms'' ''weeks'' (field (req_body req) ''weeks'')) s1
                    = (\<lparr>data = term, error = e2\<rparr>, s2)" "\<not> truthy e2"
    and price: "field product ''price'' = JNum price"
    and normal_rate: "field term ''normal_rate'' = JNum normal_rate"
    and punctual_rate: "field term ''punctual_rate'' = JNum punctual_rate"
    and weeks: "ToNumber eng (field (req_body req) ''weeks'') = weeks"
    and zero: "is_zero weeks
               \<or> (zero_number (field term ''weeks'')
                   \<and> eq_filter ''weeks'' (field (req_body req) ''weeks'') term)"
  shows "post_quote eng supabase req s =
           (\<lparr>status = 200, payload = Json (JObj
              [(''normalPayment'',
                  JNum (num_div (num_add (num_mul price normal_rate) price) weeks)),
               (''punctualPayment'',
                  JNum (num_div (num_add (num_mul price punctual_rate) price) weeks))])\<rparr>, s2)
         \<and> non_finite (num_div (num_add (num_mul price normal_rate) price) weeks)
         \<and> non_finite (num_div (num_add (num_mul price punctual_rate) price) weeks)"
proof -
  have "\<not> nullish product" "\<not> nullish term"
    using price normal_rate by (auto simp: nullish_def)
  then have run: "post_quote eng supabase req s =
           (\<lparr>status = 200, payload = Json (JObj
              [(''normalPayment'',
                  JNum (num_div (num_add (num_mul price normal_rate) price) weeks)),
               (''punctualPayment'',
                  JNum (num_div (num_add (num_mul price punctual_rate) price) weeks))])\<rparr>, s2)"
    using body product "term" price normal_rate punctual_rate weeks
    by (simp add: post_quote_def post_quote_try_def catch_def payment_def
        js_div_def js_add_def js_mul_def)
  have "is_zero weeks"
    using zero weeks matching_zero [of "field term ''weeks''" "field (req_body req) ''weeks''" eng]
    by (auto simp: eq_filter_def)
  then show ?thesis
    using run by (simp add: num_div_by_zero)
qed

theorem quote_zero_weeks_witness:
  "\<forall>eng. post_quote eng mem_store (quote_request ''A1'' (Fin 0)) shop =
           (\<lparr>status = 200, payload = Json (JObj
              [(''normalPayment'', JNum PosInf), (''punctualPayment'', JNum PosInf)])\<rparr>, shop)
         \<and> non_finite PosInf"
proof (rule allI)
  fix eng
  let ?req = "quote_request ''A1'' (Fin 0)"
  have body: "\<not> nullish (req_body ?req)"
    by code_simp
  have product: "mem_store (SelectSingle ''products'' ''sku'' (field (req_body ?req) ''sku'')) shop
      = (\<lparr>data = chair, error = JNull\<rparr>, shop)"
    by code_simp
  have "term": "mem_store (SelectSingle ''terms'' ''weeks'' (field (req_body ?req) ''weeks'')) shop
      = (\<lparr>data = zero_weeks, error = JNull\<rparr>, shop)"
    by code_simp
  have no_error: "\<not> truthy JNull"
    by simp
  have price: "field chair ''price'' = JNum (Fin 1000)"
    by code_simp
  have normal_rate: "field zero_weeks ''normal_rate'' = JNum (round_double (1 / 10))"
    by code_simp
  have punctual_rate: "field zero_weeks ''punctual_rate'' = JNum (round_double (1 / 20))"
    by code_simp
  have weeks: "ToNumber eng (field (req_body ?req) ''weeks'') = Fin 0"
    by code_simp
  have zero: "is_zero (Fin 0)
      \<or> (zero_number (field zero_weeks ''weeks'')
          \<and> eq_filter ''weeks'' (field (req_body ?req) ''weeks'') zero_weeks)"
    by simp
  have normal: "num_div (num_add (num_mul (Fin 1000) (round_double (1 / 10))) (Fin 1000)) (Fin 0)
      = PosInf"
    by code_simp
  have punctual: "num_div (num_add (num_mul (Fin 1000) (round_double (1 / 20))) (Fin 1000)) (Fin 0)
      = PosInf"
    by code_simp
  show "post_quote eng mem_store ?req shop =
           (\<lparr>status = 200, payload = Json (JObj
              [(''normalPayment'', JNum PosInf), (''punctualPayment'', JNum PosInf)])\<rparr>, shop)
         \<and> non_finite PosInf"
    using quote_zero_weeks [where supabase = mem_store,
        OF body product no_error "term" no_error price normal_rate punctual_rate weeks zero]
    by (simp only: normal punctual simp_thms)
qed

subsection \<open>Products and terms\<close>

text \<open>
  C3. When sku, name or price of a POST /products request is falsy, the handler issues no
  store call: the calls recorded and the state of the store are what they were before the
  request. When moreover the body can be destructured (it is not undefined or null), the
  answer is 400 with the handler's message. The check comes before the only store call of
  the handler.
\<close>

theorem create_product_validation:
  assumes invalid: "\<not> truthy (field (req_body req) ''sku'')
                  \<or> \<not> truthy (field (req_body req) ''name'')
                  \<or> \<not> truthy (field (req_body req) ''price'')"
  shows "snd (post_products (recording supabase) req (s, calls)) = (s, calls)
         \<and> snd (post_products supabase req s) = s
         \<and> (\<not> nullish (req_body req) \<longrightarrow>
              post_products (recording supabase) req (s, calls) =
                (error_response 400 ''SKU, nombre y precio son requeridos.'', (s, calls))
              \<and> post_products supabase req s =
                (error_response 400 ''SKU, nombre y precio son requeridos.'', s))"
proof (cases "nullish (req_body req)")
  case True
  then show ?thesis
    by (simp add: post_products_def post_products_try_def catch_def)
next
  case False
  with invalid show ?thesis
    by (auto simp: post_products_def post_products_try_def catch_def)
qed

theorem create_product_validation_witness:
  "post_products (recording mem_store)
     (body_request (JObj [(''sku'', JStr ''B7''), (''name'', JStr ''Desk'')])) (shop, []) =
     (error_response 400 ''SKU, nombre y precio son requeridos.'', (shop, []))"
proof -
  let ?req = "body_request (JObj [(''sku'', JStr ''B7''), (''name'', JStr ''Desk'')])"
  have body: "\<not> nullish (req_body ?req)"
    by code_simp
  have invalid: "\<not> truthy (field (req_body ?req) ''sku'')
        \<or> \<not> truthy (field (req_body ?req) ''name'')
        \<or> \<not> truthy (field (req_body ?req) ''price'')"
    by code_simp
  show ?thesis
    using create_product_validation [where supabase = mem_store and calls = "[]", OF invalid] body
    by simp
qed

text \<open>
  C3, the case left out above. A POST /products request without a parsed body misses sku, name and price, yet it is
  answered 500, not 400: destructuring \<^verbatim>\<open>req.body\<close> throws before the check is reached.
  No store call is issued here either.
\<close>

theorem create_product_without_body:
  "\<not> truthy (field (req_body (body_request JUndefined)) ''price'')
   \<and> post_products (recording mem_store) (body_request JUndefined) (shop, []) =
       (\<lparr>status = 500, payload = Json (JObj [(''error'', JStr ''Failed to create product'')])\<rparr>,
        (shop, []))
   \<and> status (fst (post_products mem_store (body_request JUndefined) shop)) \<noteq> 400"
  by code_simp

text \<open>
  C4. GET /products/:sku issues exactly one call, the single-row select of the product
  whose sku equals the path parameter. The answer is 404 exactly when the reply carries an
  error whose code is PGRST116, the no-rows condition; every other error gives 500 with the
  generic message, and a reply without an error gives 200 with the row.
\<close>

theorem get_product_error_mapping:
  assumes lookup: "supabase (SelectSingle ''products'' ''sku'' (JStr (params_sku req))) s = (r, s')"
  shows "get_product (recording supabase) req (s, []) =
           (fst (get_product supabase req s),
            (s', [SelectSingle ''products'' ''sku'' (JStr (params_sku req))]))
         \<and> (status (fst (get_product supabase req s)) = 404
              \<longleftrightarrow> truthy (error r) \<and> field (error r) ''code'' = JStr ''PGRST116'')
         \<and> (truthy (error r) \<and> field (error r) ''code'' = JStr ''PGRST116''
              \<longrightarrow> fst (get_product supabase req s) = error_response 404 ''Producto no encontrado.'')
         \<and> (truthy (error r) \<and> field (error r) ''code'' \<noteq> JStr ''PGRST116''
              \<longrightarrow> fst (get_product supabase req s) = error_response 500 ''Failed to fetch product'')
         \<and> (\<not> truthy (error r)
              \<longrightarrow> fst (get_product supabase req s) = \<lparr>status = 200, payload = Json (data r)\<rparr>)"
  using lookup
  by (simp add: get_product_def get_product_try_def catch_def recording_def error_response_def)

theorem get_product_error_mapping_witness:
  "fst (get_product mem_store (sku_request ''B7'' JUndefined) shop) =
     error_response 404 ''Producto no encontrado.''
   \<and> fst (get_product (failing_store (JObj [(''code'', JStr ''PGRST301'')]))
         (sku_request ''A1'' JUndefined) shop) =
     error_response 500 ''Failed to fetch product''
   \<and> fst (get_product mem_store (sku_request ''A1'' JUndefined) shop) =
     \<lparr>status = 200, payload = Json chair\<rparr>"
proof (intro conjI)
  let ?req = "sku_request ''B7'' JUndefined"
  have lookup: "mem_store (SelectSingle ''products'' ''sku'' (JStr (params_sku ?req))) shop
      = (no_rows, shop)"
    by code_simp
  have code: "truthy (error no_rows) \<and> field (error no_rows) ''code'' = JStr ''PGRST116''"
    by code_simp
  show "fst (get_product mem_store ?req shop) = error_response 404 ''Producto no encontrado.''"
    using get_product_error_mapping [where supabase = mem_store, OF lookup] code
    by blast
next
  let ?req = "sku_request ''A1'' JUndefined"
  let ?err = "JObj [(''code'', JStr ''PGRST301'')]"
  let ?r = "\<lparr>data = JNull, error = ?err\<rparr>"
  have lookup: "failing_store ?err (SelectSingle ''products'' ''sku'' (JStr (params_sku ?req))) shop
      = (?r, shop)"
    by code_simp
  have code: "truthy (error ?r) \<and> field (error ?r) ''code'' \<noteq> JStr ''PGRST116''"
    by code_simp
  show "fst (get_product (failing_store ?err) ?req shop) =
      error_response 500 ''Failed to fetch product''"
    using get_product_error_mapping [where supabase = "failing_store ?err", OF lookup] code
    by blast
next
  let ?req = "sku_request ''A1'' JUndefined"
  let ?r = "\<lparr>data = chair, error = JNull\<rparr>"
  have lookup: "mem_store (SelectSingle ''products'' ''sku'' (JStr (params_sku ?req))) shop
      = (?r, shop)"
    by code_simp
  have code: "\<not> truthy (error ?r)"
    by code_simp
  show "fst (get_product mem_store ?req shop) = \<lparr>status = 200, payload = Json chair\<rparr>"
    using get_product_error_mapping [where supabase = mem_store, OF lookup] code
    by simp
qed

text \<open>
  C7. When name and price of a PUT /products/:sku request are truthy and the store answers
  the update without an error and with no row, as it does when no record has that sku, the
  handler answers 200 with the first element of the empty result, undefined: neither 404
  nor 500.
\<close>

theorem update_without_match:
  assumes valid: "truthy (field (req_body req) ''name'')" "truthy (field (req_body req) ''price'')"
    and update: "supabase (Update ''products''
                   (JObj [(''name'', field (req_body req) ''name''),
                          (''description'', field (req_body req) ''description''),
                          (''price'', field (req_body req) ''price'')])
                   ''sku'' (JStr (params_sku req))) s = (\<lparr>data = JArr [], error = e\<rparr>, s')"
    and no_error: "\<not> truthy e"
  shows "put_product supabase req s = (\<lparr>status = 200, payload = Json JUndefined\<rparr>, s')"
  using assms truthy_field [OF valid(1)]
  by (simp add: put_product_def put_product_try_def catch_def)

theorem update_without_match_witness:
  "put_product mem_store
     (sku_request ''B7'' (JObj [(''name'', JStr ''Desk''), (''price'', JNum (Fin 250))])) shop =
     (\<lparr>status = 200, payload = Json JUndefined\<rparr>, shop)"
proof -
  let ?req = "sku_request ''B7'' (JObj [(''name'', JStr ''Desk''), (''price'', JNum (Fin 250))])"
  have name: "truthy (field (req_body ?req) ''name'')"
    by code_simp
  have price: "truthy (field (req_body ?req) ''price'')"
    by code_simp
  have update: "mem_store (Update ''products''
                   (JObj [(''name'', field (req_body ?req) ''name''),
                          (''description'', field (req_body ?req) ''description''),
                          (''price'', field (req_body ?req) ''price'')])
                   ''sku'' (JStr (params_sku ?req))) shop = (\<lparr>data = JArr [], error = JNull\<rparr>, shop)"
    by code_simp
  have no_error: "\<not> truthy JNull"
    by simp
  show ?thesis
    using update_without_match [where supabase = mem_store, OF name price update no_error] .
qed

text \<open>
  C8. The required-field check tests truthiness, not presence. A POST /products request
  whose price is the number zero, or whose sku or name is the empty string, is answered 400
  although the field is present; so is a POST /terms request whose weeks, normal_rate or
  punctual_rate is the number zero.
\<close>

theorem validation_tests_truthiness:
  "(zero_number (field (req_body req) ''price'')
      \<or> field (req_body req) ''sku'' = JStr []
      \<or> field (req_body req) ''name'' = JStr []
     \<longrightarrow> post_products supabase req s =
           (error_response 400 ''SKU, nombre y precio son requeridos.'', s))
   \<and> (zero_number (field (req_body req) ''weeks'')
      \<or> zero_number (field (req_body req) ''normal_rate'')
      \<or> zero_number (field (req_body req) ''punctual_rate'')
     \<longrightarrow> post_terms supabase req s =
           (error_response 400 ''Weeks, normal_rate, and punctual_rate are required'', s))"
proof -
  have body: "\<not> nullish (req_body req)" if "field (req_body req) k \<noteq> JUndefined" for k
    using that by (auto simp: nullish_def)
  have product: "post_products supabase req s =
      (error_response 400 ''SKU, nombre y precio son requeridos.'', s)"
    if "\<not> truthy (field (req_body req) k)" "field (req_body req) k \<noteq> JUndefined"
      "k \<in> {''sku'', ''name'', ''price''}" for k
    using that body [of k]
    by (auto simp: post_products_def post_products_try_def catch_def)
  have terms: "post_terms supabase req s =
      (error_response 400 ''Weeks, normal_rate, and punctual_rate are required'', s)"
    if "\<not> truthy (field (req_body req) k)" "field (req_body req) k \<noteq> JUndefined"
      "k \<in> {''weeks'', ''normal_rate'', ''punctual_rate''}" for k
    using that body [of k]
    by (auto simp: post_terms_def post_terms_try_def catch_def)
  have zero: "\<not> truthy v \<and> v \<noteq> JUndefined" if "zero_number v" for v
    using that by (cases v) simp_all
  show ?thesis
    using product [of "''price''"] product [of "''sku''"] product [of "''name''"]
      terms [of "''weeks''"] terms [of "''normal_rate''"] terms [of "''punctual_rate''"]
      zero [of "field (req_body req) ''price''"] zero [of "field (req_body req) ''weeks''"]
      zero [of "field (req_body req) ''normal_rate''"]
      zero [of "field (req_body req) ''punctual_rate''"]
    by auto
qed

theorem validation_tests_truthiness_witness:
  "post_products mem_store (body_request (JObj [(''sku'', JStr ''B7''), (''name'', JStr ''Desk''),
       (''price'', JNum (Fin 0))])) shop =
     (error_response 400 ''SKU, nombre y precio son requeridos.'', shop)
   \<and> post_products mem_store (body_request (JObj [(''sku'', JStr []), (''name'', JStr ''Desk''),
       (''price'', JNum (Fin 250))])) shop =
     (error_response 400 ''SKU, nombre y precio son requeridos.'', shop)
   \<and> post_terms mem_store (body_request (JObj [(''weeks'', JNum (Fin 0)),
       (''normal_rate'', JNum (round_double (1 / 10))),
       (''punctual_rate'', JNum (round_double (1 / 20)))])) shop =
     (error_response 400 ''Weeks, normal_rate, and punctual_rate are required'', shop)
   \<and> post_terms mem_store (body_request (JObj [(''weeks'', JNum (Fin 8)),
       (''normal_rate'', JNum (Fin 0)),
       (''punctual_rate'', JNum (round_double (1 / 20)))])) shop =
     (error_response 400 ''Weeks, normal_rate, and punctual_rate are required'', shop)"
proof (intro conjI)
  let ?req = "body_request (JObj [(''sku'', JStr ''B7''), (''name'', JStr ''Desk''),
       (''price'', JNum (Fin 0))])"
  have "zero_number (field (req_body ?req) ''price'')
         \<or> field (req_body ?req) ''sku'' = JStr []
         \<or> field (req_body ?req) ''name'' = JStr []"
    by code_simp
  then show "post_products mem_store ?req shop =
      (error_response 400 ''SKU, nombre y precio son requeridos.'', shop)"
    using validation_tests_truthiness [of ?req mem_store shop] by blast
next
  let ?req = "body_request (JObj [(''sku'', JStr []), (''name'', JStr ''Desk''),
       (''price'', JNum (Fin 250))])"
  have "zero_number (field (req_body ?req) ''price'')
         \<or> field (req_body ?req) ''sku'' = JStr []
         \<or> field (req_body ?req) ''name'' = JStr []"
    by code_simp
  then show "post_products mem_store ?req shop =
      (error_response 400 ''SKU, nombre y precio son requeridos.'', shop)"
    using validation_tests_truthiness [of ?req mem_store shop] by blast
next
  let ?req = "body_request (JObj [(''weeks'', JNum (Fin 0)),
       (''normal_rate'', JNum (round_double (1 / 10))),
       (''punctual_rate'', JNum (round_double (1 / 20)))])"
  have "zero_number (field (req_body ?req) ''weeks'')
         \<or> zero_number (field (req_body ?req) ''normal_rate'')
         \<or> zero_number (field (req_body ?req) ''punctual_rate'')"
    by code_simp
  then show "post_terms mem_store ?req shop =
      (error_response 400 ''Weeks, normal_rate, and punctual_rate are required'', shop)"
    using validation_tests_truthiness [of ?req mem_store shop] by blast
next
  let ?req = "body_request (JObj [(''weeks'', JNum (Fin 8)),
       (''normal_rate'', JNum (Fin 0)),
       (''punctual_rate'', JNum (round_double (1 / 20)))])"
  have "zero_number (field (req_body ?req) ''weeks'')
         \<or> zero_number (field (req_body ?req) ''normal_rate'')
         \<or> zero_number (field (req_body ?req) ''punctual_rate'')"
    by code_simp
  then show "post_terms mem_store ?req shop =
      (error_response 400 ''Weeks, normal_rate, and punctual_rate are required'', shop)"
    using validation_tests_truthiness [of ?req mem_store shop] by blast
qed

text \<open>
  C9. DELETE /products/:sku issues one delete filtered by the path's sku and answers 204
  without a body whenever the reply carries no error. Nothing else of the reply is read, so
  the answer is the same whether or not a record had that sku.
\<close>

theorem delete_without_error:
  assumes delete: "supabase (Delete ''products'' ''sku'' (JStr (params_sku req))) s = (r, s')"
    and no_error: "\<not> truthy (error r)"
  shows "delete_product supabase req s = (\<lparr>status = 204, payload = NoBody\<rparr>, s')
         \<and> delete_product (recording supabase) req (s, []) =
             (\<lparr>status = 204, payload = NoBody\<rparr>,
              (s', [Delete ''products'' ''sku'' (JStr (params_sku req))]))"
  using assms
  by (simp add: delete_product_def delete_product_try_def catch_def recording_def)

theorem delete_without_error_witness:
  "delete_product mem_store (sku_request ''B7'' JUndefined) shop =
     (\<lparr>status = 204, payload = NoBody\<rparr>, shop)
   \<and> delete_product mem_store (sku_request ''A1'' JUndefined) shop =
     (\<lparr>status = 204, payload = NoBody\<rparr>, shop\<lparr>products := []\<rparr>)"
proof (intro conjI)
  let ?req = "sku_request ''B7'' JUndefined"
  have delete: "mem_store (Delete ''products'' ''sku'' (JStr (params_sku ?req))) shop
      = (\<lparr>data = JNull, error = JNull\<rparr>, shop)"
    by code_simp
  have no_error: "\<not> truthy (error \<lparr>data = JNull, error = JNull\<rparr>)"
    by simp
  show "delete_product mem_store ?req shop = (\<lparr>status = 204, payload = NoBody\<rparr>, shop)"
    using delete_without_error [where supabase = mem_store, OF delete no_error] by simp
next
  let ?req = "sku_request ''A1'' JUndefined"
  have delete: "mem_store (Delete ''products'' ''sku'' (JStr (params_sku ?req))) shop
      = (\<lparr>data = JNull, error = JNull\<rparr>, shop\<lparr>products := []\<rparr>)"
    by code_simp
  have no_error: "\<not> truthy (error \<lparr>data = JNull, error = JNull\<rparr>)"
    by simp
  show "delete_product mem_store ?req shop =
      (\<lparr>status = 204, payload = NoBody\<rparr>, shop\<lparr>products := []\<rparr>)"
    using delete_without_error [where supabase = mem_store, OF delete no_error] by simp
qed

lemma set_fields_other:
  "k \<notin> fst ` set ps \<Longrightarrow> map_of (set_fields ps fs) k = map_of fs k"
  by (induction ps fs rule: set_fields.induct) (auto simp: update_conv')

lemma apply_patch_other:
  "k \<notin> set (keys_of patch) \<Longrightarrow> field (apply_patch patch row) k = field row k"
  by (cases patch; cases row) (simp_all add: set_fields_other)

lemma mem_store_update_sku:
  assumes "''sku'' \<notin> set (keys_of patch)"
  shows "map (\<lambda>row. field row ''sku'')
           (products (snd (mem_store (Update ''products'' patch col v) t))) =
         map (\<lambda>row. field row ''sku'') (products t)"
  using assms by (simp add: on_table_def rows_of_def put_rows_def apply_patch_other)

text \<open>
  C10. A PUT /products/:sku request that passes the check issues one update whose patch
  has exactly the properties name, description and price; the sku of the path occurs only
  as the value of the equality filter. Hence, on a store whose update leaves alone the
  column sku when the patch does not name it, the sku column of the products is the same
  after the request as before. (\<open>skus\<close> reads that column from the state of the store.)
\<close>

theorem update_keeps_sku:
  assumes valid: "truthy (field (req_body req) ''name'')" "truthy (field (req_body req) ''price'')"
    and store: "\<And>patch col v t. ''sku'' \<notin> set (keys_of patch) \<Longrightarrow>
                  skus (snd (supabase (Update ''products'' patch col v) t)) = skus t"
  shows "(let patch = JObj [(''name'', field (req_body req) ''name''),
                            (''description'', field (req_body req) ''description''),
                            (''price'', field (req_body req) ''price'')]
          in snd (snd (put_product (recording supabase) req (s, []))) =
               [Update ''products'' patch ''sku'' (JStr (params_sku req))]
             \<and> keys_of patch = [''name'', ''description'', ''price''])
         \<and> skus (snd (put_product supabase req s)) = skus s"
proof
  let ?patch = "JObj [(''name'', field (req_body req) ''name''),
                      (''description'', field (req_body req) ''description''),
                      (''price'', field (req_body req) ''price'')]"
  have body: "\<not> nullish (req_body req)"
    using valid(1) by (rule truthy_field)
  have "snd (snd (put_product (recording supabase) req (s, []))) =
      [Update ''products'' ?patch ''sku'' (JStr (params_sku req))]"
    using body valid
    by (simp add: put_product_def put_product_try_def catch_def recording_def Let_def
        split: prod.splits sum.splits)
  then show "let patch = ?patch
      in snd (snd (put_product (recording supabase) req (s, []))) =
           [Update ''products'' patch ''sku'' (JStr (params_sku req))]
         \<and> keys_of patch = [''name'', ''description'', ''price'']"
    by (simp add: Let_def)
  have run: "snd (put_product supabase req s) =
        snd (supabase (Update ''products'' ?patch ''sku'' (JStr (params_sku req))) s)"
    using body valid
    by (simp add: put_product_def put_product_try_def catch_def Let_def
        split: prod.splits sum.splits)
  have key: "''sku'' \<notin> set (keys_of ?patch)"
    by simp
  show "skus (snd (put_product supabase req s)) = skus s"
    unfolding run by (rule store [OF key])
qed

theorem update_keeps_sku_witness:
  "snd (put_product (recording mem_store)
     (sku_request ''A1'' (JObj [(''sku'', JStr ''Z9''), (''name'', JStr ''Stool''),
        (''price'', JNum (Fin 300))])) (shop, [])) =
     (\<lparr>products = [JObj [(''sku'', JStr ''A1''), (''name'', JStr ''Stool''),
         (''description'', JStr ''Oak''), (''price'', JNum (Fin 300))]],
       terms = [four_weeks, zero_weeks]\<rparr>,
      [Update ''products''
         (JObj [(''name'', JStr ''Stool''), (''description'', JUndefined),
                (''price'', JNum (Fin 300))])
         ''sku'' (JStr ''A1'')])
   \<and> map (\<lambda>row. field row ''sku'')
       (products (snd (put_product mem_store
          (sku_request ''A1'' (JObj [(''sku'', JStr ''Z9''), (''name'', JStr ''Stool''),
             (''price'', JNum (Fin 300))])) shop))) = [JStr ''A1'']"
proof -
  let ?req = "sku_request ''A1'' (JObj [(''sku'', JStr ''Z9''), (''name'', JStr ''Stool''),
        (''price'', JNum (Fin 300))])"
  let ?skus = "\<lambda>t. map (\<lambda>row. field row ''sku'') (products t)"
  have name: "truthy (field (req_body ?req) ''name'')"
    by code_simp
  have price: "truthy (field (req_body ?req) ''price'')"
    by code_simp
  have store: "?skus (snd (mem_store (Update ''products'' patch col v) t)) = ?skus t"
    if "''sku'' \<notin> set (keys_of patch)" for patch col v t
    using that by (rule mem_store_update_sku)
  note kept = update_keeps_sku [where supabase = mem_store and skus = ?skus and s = shop,
      OF name price store]
  have state: "fst (snd (put_product (recording mem_store) ?req (shop, []))) =
      \<lparr>products = [JObj [(''sku'', JStr ''A1''), (''name'', JStr ''Stool''),
         (''description'', JStr ''Oak''), (''price'', JNum (Fin 300))]],
       terms = [four_weeks, zero_weeks]\<rparr>"
    by code_simp
  have patch: "JObj [(''name'', field (req_body ?req) ''name''),
                     (''description'', field (req_body ?req) ''description''),
                     (''price'', field (req_body ?req) ''price'')] =
      JObj [(''name'', JStr ''Stool''), (''description'', JUndefined),
            (''price'', JNum (Fin 300))]"
    by code_simp
  have param: "params_sku ?req = ''A1''"
    by code_simp
  have calls: "snd (snd (put_product (recording mem_store) ?req (shop, []))) =
      [Update ''products''
         (JObj [(''name'', JStr ''Stool''), (''description'', JUndefined),
                (''price'', JNum (Fin 300))])
         ''sku'' (JStr ''A1'')]"
    using kept patch param by (simp add: Let_def)
  have before: "?skus shop = [JStr ''A1'']"
    by code_simp
  have after: "?skus (snd (put_product mem_store ?req shop)) = [JStr ''A1'']"
    using kept before by simp
  from state calls after show ?thesis
    by (simp add: prod_eq_iff)
qed

end
